theory Spec2Isabelle
  imports Main
begin

section \<open>Python values and built-ins used by the linkytic entities\<close>

text \<open>
  The exceptions that the modelled code can raise. A call that raises is a value
  \<open>Inl e\<close>; a call that returns is \<open>Inr v\<close>.
\<close>

datatype error = TypeError | IndexError | KeyError

text \<open>
  The attribute \<open>_last_state\<close> of a relay entity is dynamically typed: the source stores
  \<open>None\<close>, a \<open>bool\<close> and an \<open>int\<close> in it at different program points.
\<close>

datatype pyval = PNone | PBool bool | PInt int

text \<open>Python truth value testing, as done by \<open>if x:\<close>.\<close>

fun py_truthy :: "pyval \<Rightarrow> bool" where
  "py_truthy PNone = False"
| "py_truthy (PBool b) = b"
| "py_truthy (PInt n) = (n \<noteq> 0)"

text \<open>
  \<open>int(value)\<close> for a value that is an integer or \<open>None\<close>: the conversion of an integer
  is the identity, \<open>int(None)\<close> raises \<open>TypeError\<close>.
\<close>

fun py_int :: "int option \<Rightarrow> error + int" where
  "py_int None = Inl TypeError"
| "py_int (Some n) = Inr n"

text \<open>Decimal and binary digits of a natural number, most significant first.\<close>

fun dec_digits :: "nat \<Rightarrow> string" where
  "dec_digits n =
     (if n < 10 then [char_of (48 + n)]
      else dec_digits (n div 10) @ [char_of (48 + n mod 10)])"

fun bin_digits :: "nat \<Rightarrow> string" where
  "bin_digits n =
     (if n < 2 then [if n = 0 then CHR ''0'' else CHR ''1'']
      else bin_digits (n div 2) @ [if n mod 2 = 0 then CHR ''0'' else CHR ''1''])"

declare dec_digits.simps [simp del]
declare bin_digits.simps [simp del]

text \<open>\<open>str(n)\<close> and \<open>repr(n)\<close> of an integer, and \<open>repr\<close> of an optional integer.\<close>

definition py_str_int :: "int \<Rightarrow> string" where
  "py_str_int n = (if n < 0 then CHR ''-'' # dec_digits (nat (- n)) else dec_digits (nat n))"

fun py_repr :: "int option \<Rightarrow> string" where
  "py_repr None = ''None''"
| "py_repr (Some n) = py_str_int n"

text \<open>\<open>str(s)\<close> of an optional string inside an f-string.\<close>

fun py_str_opt :: "string option \<Rightarrow> string" where
  "py_str_opt None = ''None''"
| "py_str_opt (Some s) = s"

text \<open>
  \<open>"{0:08b}".format(n)\<close>: binary digits, padded with zeros to a minimum width of 8.
  The padding is sign-aware: the minus sign of a negative number comes first and counts
  in the width. A number that needs more than 8 characters is not truncated.
\<close>

definition zero_pad :: "nat \<Rightarrow> string \<Rightarrow> string" where
  "zero_pad w s = replicate (w - length s) (CHR ''0'') @ s"

definition format_08b :: "int \<Rightarrow> string" where
  "format_08b n =
     (if n < 0 then CHR ''-'' # zero_pad 7 (bin_digits (nat (- n)))
      else zero_pad 8 (bin_digits (nat n)))"

text \<open>
  \<open>s[i]\<close> on a sequence: a negative index counts from the end, an index outside the
  sequence raises \<open>IndexError\<close>.
\<close>

definition py_getitem :: "'a list \<Rightarrow> int \<Rightarrow> error + 'a" where
  "py_getitem s i =
     (if 0 \<le> i \<and> i < int (length s) then Inr (s ! nat i)
      else if i < 0 \<and> - int (length s) \<le> i then Inr (s ! nat (int (length s) + i))
      else Inl IndexError)"

text \<open>\<open>d[k]\<close> on a dictionary: a missing key raises \<open>KeyError\<close>.\<close>

definition py_dict_getitem :: "('k \<rightharpoonup> 'v) \<Rightarrow> 'k \<Rightarrow> error + 'v" where
  "py_dict_getitem d k = (case d k of None \<Rightarrow> Inl KeyError | Some v \<Rightarrow> Inr v)"

section \<open>Collaborators outside the modelled files\<close>

text \<open>
  Modelled from the spec: the serial reader \<open>LinkyTICReader\<close> (module \<open>serial_reader\<close>) is
  not part of the modelled files. The spec gives its interface: the latest cached value
  of a tag is an optional integer, \<open>has_read_full_frame\<close> and \<open>is_connected\<close> are booleans.
  The source unpacks the result of \<open>get_values\<close> as a pair and drops the second
  component. A \<open>reader\<close> is what the reader object answers at the time of one call.
\<close>

record reader =
  get_values :: "string \<Rightarrow> int option \<times> string option"
  has_read_full_frame :: bool
  is_connected :: bool

text \<open>
  Names that the source imports or inherits and whose values are not in the modelled
  files: the constants of module \<open>const\<close>, and the default of the attribute
  \<open>_attr_available\<close> that the entity classes inherit from the host's \<open>Entity\<close> class (the
  source never assigns it in a constructor). They are parameters of the model.
\<close>

record imported =
  DOMAIN :: string
  SETUP_TICMODE :: string
  TICMODE_STANDARD :: string
  Entity_attr_available :: bool

section \<open>The entities\<close>

record relay_state =
  tag :: string
  config_title :: string
  config_uniq_id :: "string option"
  attr_unique_id :: string
  attr_name :: string
  attr_icon :: string
  serial_controller :: nat
  relay_index :: int
  last_state :: pyval
  attr_available :: bool

text \<open>
  The other entity classes of the two files. \<open>SerialConnectivity\<close> keeps what its
  constructor assigns; \<open>BASE\<close> has class attributes only.
\<close>

record serial_connectivity =
  sc_title :: string
  sc_attr_unique_id :: string
  sc_serial_controller :: nat
  sc_device_uniq_id :: string

datatype sensor_device_class = ENERGY

datatype sensor_state_class = MEASUREMENT | TOTAL | TOTAL_INCREASING

record base_sensor =
  base_attr_icon :: string
  base_attr_name :: string
  base_attr_should_poll :: bool
  base_attr_unique_id :: string
  base_attr_device_class :: sensor_device_class
  base_attr_native_value :: int
  base_attr_native_unit_of_measurement :: string
  base_attr_state_class :: sensor_state_class

datatype entity = Relay relay_state | Serial serial_connectivity | Base base_sensor

text \<open>
  What a function does to its environment, in program order: a call of the logger (level,
  format string and arguments), a registration of a push-notification callback at the
  reader, \<open>asyncio.sleep\<close>, and a call of the host's \<open>async_add_entities\<close> (the entities and
  the flag \<open>update_before_add\<close>). A callback answers with the requests it makes to the
  host; the only such request is \<open>schedule_update_ha_state\<close>.
\<close>

datatype log_level = DEBUG | INFO | WARNING | ERROR

datatype host_call = ScheduleUpdateHaState (force_refresh: bool)

datatype effect =
    Log log_level string "string list"
  | RegisterPushNotif string "bool \<Rightarrow> host_call list"
  | Sleep nat
  | AddEntities "entity list" bool

text \<open>\<open>RelayState.update_notification\<close>: the argument is ignored.\<close>

definition update_notification :: "relay_state \<Rightarrow> bool \<Rightarrow> host_call list" where
  "update_notification self realtime_option = [ScheduleUpdateHaState True]"

text \<open>
  \<open>RelayState.__init__\<close>. The reader is held by reference (\<open>serial_reader\<close> is the
  identity of the object). The result is the new entity and the effects of the
  constructor: one debug line and the registration of the bound method
  \<open>self.update_notification\<close> for the entity's tag.
\<close>

definition RelayState_init ::
  "imported \<Rightarrow> string \<Rightarrow> string option \<Rightarrow> nat \<Rightarrow> int \<Rightarrow> relay_state \<times> effect list" where
  "RelayState_init imp title uniq_id serial_reader relay_idx =
     (let self = \<lparr> tag = ''RELAIS'',
                   config_title = title,
                   config_uniq_id = uniq_id,
                   attr_unique_id =
                     DOMAIN imp @ ''_'' @ py_str_opt uniq_id @ ''_'' @ ''RELAIS'' @ ''_''
                       @ py_str_int relay_idx,
                   attr_name = ''Relais '' @ py_str_int relay_idx,
                   attr_icon = ''mdi:electric-switch'',
                   serial_controller = serial_reader,
                   relay_index = relay_idx - 1,
                   last_state = PNone,
                   attr_available = Entity_attr_available imp \<rparr>
      in (self,
          [Log DEBUG (''title: initializing binary sensor for relay '' @ py_str_int relay_idx) [],
           RegisterPushNotif (tag self) (update_notification self)]))"

text \<open>The property \<open>RelayState.is_on\<close>.\<close>

definition is_on :: "relay_state \<Rightarrow> pyval" where
  "is_on self = last_state self"

text \<open>The three logger calls of \<open>update\<close>: one debug line and two info lines.\<close>

definition retrieved_line :: "relay_state \<Rightarrow> int option \<Rightarrow> effect" where
  "retrieved_line self val =
     Log DEBUG ''%s: retrieved %s value from serial controller: %s''
       [config_title self, tag self, py_repr val]"

definition unavailable_line :: "relay_state \<Rightarrow> effect" where
  "unavailable_line self =
     Log INFO
       ''%s: marking the %s sensor as unavailable: a full frame has been read but RELAIS has not been found''
       [config_title self, attr_name self]"

definition available_line :: "relay_state \<Rightarrow> effect" where
  "available_line self =
     Log INFO ''%s: marking the %s sensor as available now ! (was not previously)''
       [config_title self, attr_name self]"

text \<open>
  \<open>RelayState.update\<close>, in two parts. \<open>update_tail\<close> is the body from the comment
  \<open># Handle entity availability\<close> on, for the value that the variable \<open>value\<close> holds at that
  point; it has both branches of \<open>if value is None\<close> as the source has them. \<open>update\<close> is
  the whole method: it reads the reader, logs, and rebinds \<open>value\<close> to \<open>int(value)\<close>
  before the body runs.

  The result is the outcome (returned or raised), the entity as the call leaves it, and
  the log lines written.
\<close>

type_synonym update_result = "(error + unit) \<times> relay_state \<times> effect list"

definition update_tail :: "reader \<Rightarrow> relay_state \<Rightarrow> int option \<Rightarrow> update_result" where
  "update_tail rd self val =
     (case val of
        None \<Rightarrow>
          if attr_available self \<and> has_read_full_frame rd
          then (Inr (),
                self\<lparr>attr_available := False\<rparr>,
                [unavailable_line self])
          else (Inr (), self, [])
      | Some v \<Rightarrow>
          (let (self1, log1) =
                 (if \<not> attr_available self
                  then (self\<lparr>attr_available := True\<rparr>,
                        [available_line self])
                  else (self, []))
           in case py_int (Some v) of
                Inl e \<Rightarrow> (Inl e, self1, log1)
              | Inr n \<Rightarrow>
                  (let state_bitfield = format_08b n
                   in case py_getitem state_bitfield (relay_index self1) of
                        Inl e \<Rightarrow> (Inl e, self1, log1)
                      | Inr c \<Rightarrow>
                          (let self2 = self1\<lparr>last_state := PBool (c = CHR ''1'')\<rparr>;
                               self3 = (if py_truthy (last_state self2)
                                        then self2\<lparr>attr_icon := ''mdi:electric-switch-closed''\<rparr>
                                        else self2\<lparr>attr_icon := ''mdi:electric-switch''\<rparr>);
                               self4 = self3\<lparr>last_state := PInt v\<rparr>
                           in (Inr (), self4, log1)))))"

definition update :: "reader \<Rightarrow> relay_state \<Rightarrow> update_result" where
  "update rd self =
     (let (val, _) = get_values rd (tag self);
          log0 = [retrieved_line self val]
      in case py_int val of
           Inl e \<Rightarrow> (Inl e, self, log0)
         | Inr n \<Rightarrow>
             (case update_tail rd self (Some n) of
                (res, self', log1) \<Rightarrow> (res, self', log0 @ log1)))"

text \<open>Projections of the result of \<open>update\<close>.\<close>

definition outcome :: "update_result \<Rightarrow> error + unit" where
  "outcome r = fst r"

definition entity_after :: "update_result \<Rightarrow> relay_state" where
  "entity_after r = fst (snd r)"

definition logged :: "update_result \<Rightarrow> effect list" where
  "logged r = snd (snd r)"

text \<open>
  The log lines that report a change of availability are the two \<open>_LOGGER.info\<close> calls of
  \<open>update\<close>; it writes nothing else at that level.
\<close>

fun is_transition_event :: "effect \<Rightarrow> bool" where
  "is_transition_event (Log INFO _ _) = True"
| "is_transition_event _ = False"

definition transition_events :: "effect list \<Rightarrow> effect list" where
  "transition_events es = filter is_transition_event es"

section \<open>The connectivity entity and the energy sensor\<close>

text \<open>\<open>SerialConnectivity.__init__\<close> and its property \<open>is_on\<close>.\<close>

definition SerialConnectivity_init ::
  "imported \<Rightarrow> string \<Rightarrow> string option \<Rightarrow> nat \<Rightarrow> serial_connectivity \<times> effect list" where
  "SerialConnectivity_init imp title uniq_id serial_reader =
     (\<lparr> sc_title = title,
        sc_attr_unique_id = DOMAIN imp @ ''_'' @ py_str_opt uniq_id @ ''_serial_connectivity'',
        sc_serial_controller = serial_reader,
        sc_device_uniq_id = (case uniq_id of Some u \<Rightarrow> u | None \<Rightarrow> ''yaml_legacy'') \<rparr>,
      [Log DEBUG ''%s: initializing Serial Connectivity binary sensor'' [title]])"

definition serial_is_on :: "reader \<Rightarrow> serial_connectivity \<Rightarrow> bool" where
  "serial_is_on rd self = is_connected rd"

text \<open>
  The class \<open>BASE\<close> of \<open>sensor.py\<close>: its attributes are class attributes with literal
  values, and the constructor only writes a debug line. The property \<open>native_value\<close> is
  inherited from the host's \<open>SensorEntity\<close>, where it returns \<open>_attr_native_value\<close>.
\<close>

definition BASE_init :: "base_sensor \<times> effect list" where
  "BASE_init =
     (\<lparr> base_attr_icon = ''mdi:counter'',
        base_attr_name = ''Index option Base'',
        base_attr_should_poll = False,
        base_attr_unique_id = ''base'',
        base_attr_device_class = ENERGY,
        base_attr_native_value = 42,
        base_attr_native_unit_of_measurement = ''Wh'',
        base_attr_state_class = TOTAL_INCREASING \<rparr>,
      [Log DEBUG ''initing BASE sensor'' []])"

definition native_value :: "base_sensor \<Rightarrow> int" where
  "native_value self = base_attr_native_value self"

definition async_setup_platform :: "effect list" where
  "async_setup_platform =
     (let (base, log_init) = BASE_init
      in [Log WARNING ''lixee adding sensors'' []] @ log_init @ [AddEntities [Base base] True])"

section \<open>Set-up of the binary sensors\<close>

record config_entry =
  title :: string
  entry_id :: string
  data :: "string \<rightharpoonup> string"

text \<open>
  The waiting loop of \<open>async_setup_entry\<close>, over the values of \<open>i\<close> that remain. The answer
  of the reader's \<open>has_read_full_frame()\<close> at the poll of iteration \<open>i\<close> is \<open>frames i\<close>.
\<close>

fun wait_loop :: "string \<Rightarrow> (nat \<Rightarrow> bool) \<Rightarrow> nat list \<Rightarrow> effect list" where
  "wait_loop t frames [] = []"
| "wait_loop t frames (i # rest) =
     Sleep 1 #
     (if frames i
      then [Log DEBUG ''%s: a full frame has been read, initializing sensors'' [t]]
      else (if i = 8
            then [Log WARNING
                    ''%s: wait time is over but a full frame has yet to be read: initializing sensors anyway''
                    [t]]
            else [])
           @ wait_loop t frames rest)"

text \<open>
  \<open>async_setup_entry\<close>. \<open>hass_data\<close> is the host's registry \<open>hass.data\<close>: per domain, the
  reader (by identity) of each config entry. The result is the outcome and the effects in
  program order.
\<close>

definition async_setup_entry ::
  "imported \<Rightarrow> (string \<rightharpoonup> (string \<rightharpoonup> nat)) \<Rightarrow> config_entry \<Rightarrow> (nat \<Rightarrow> bool)
     \<Rightarrow> (error + unit) \<times> effect list" where
  "async_setup_entry imp hass_data entry frames =
     (let log0 = [Log DEBUG ''%s: setting up binary sensor plateform'' [title entry]]
      in case (case py_dict_getitem hass_data (DOMAIN imp) of
                 Inl e \<Rightarrow> Inl e
               | Inr per_entry \<Rightarrow> py_dict_getitem per_entry (entry_id entry)) of
           Inl KeyError \<Rightarrow>
             (Inr (),
              log0 @ [Log ERROR
                        ''%s: can not init binaries sensors: failed to get the serial reader object''
                        [title entry]])
         | Inl e \<Rightarrow> (Inl e, log0)
         | Inr serial_reader \<Rightarrow>
             (let log1 = [Log DEBUG
                            ''%s: waiting at most 9s before setting up binary sensor plateform in order for the async serial reader to have time to parse a full frame''
                            [title entry]];
                  waited = wait_loop (title entry) frames [0..<9];
                  relays = (if data entry (SETUP_TICMODE imp) = Some (TICMODE_STANDARD imp)
                            then (let made = map (\<lambda>i. RelayState_init imp (title entry)
                                                     (Some (entry_id entry)) serial_reader i)
                                               [1..8]
                                  in concat (map snd made)
                                     @ [AddEntities (map (\<lambda>m. Relay (fst m)) made) True])
                            else []);
                  (conn, log_conn) = SerialConnectivity_init imp (title entry)
                                       (Some (entry_id entry)) serial_reader
              in (Inr (),
                  log0 @ log1 @ waited @ relays @ log_conn @ [AddEntities [Serial conn] True])))"

fun is_add_entities :: "effect \<Rightarrow> bool" where
  "is_add_entities (AddEntities _ _) = True"
| "is_add_entities _ = False"

fun is_register_push_notif :: "effect \<Rightarrow> bool" where
  "is_register_push_notif (RegisterPushNotif _ _) = True"
| "is_register_push_notif _ = False"

section \<open>Concrete inputs\<close>

text \<open>
  Values for the parameters, used where a result is evaluated on a concrete input: the
  imported names, a reader that answers \<open>v\<close> for every tag, and the entity of relay \<open>i\<close> as
  its constructor leaves it.
\<close>

definition imported_example :: imported where
  "imported_example =
     \<lparr> DOMAIN = ''linkytic'', SETUP_TICMODE = ''tic_mode'', TICMODE_STANDARD = ''std'',
       Entity_attr_available = True \<rparr>"

definition reader_example :: "int option \<Rightarrow> bool \<Rightarrow> reader" where
  "reader_example v full =
     \<lparr> get_values = (\<lambda>t. (v, None)), has_read_full_frame = full, is_connected = True \<rparr>"

definition relay_example :: "int \<Rightarrow> relay_state" where
  "relay_example i = fst (RelayState_init imported_example ''Linky'' (Some ''entry1'') 0 i)"


definition config_entry_example :: config_entry where
  "config_entry_example =
     \<lparr> title = ''Linky'', entry_id = ''entry1'', data = [''tic_mode'' \<mapsto> ''std''] \<rparr>"

section \<open>Properties of the built-ins\<close>

lemma length_bin_digits_pos: "0 < length (bin_digits n)"
  by (induction n rule: bin_digits.induct) (subst bin_digits.simps, simp)

lemma length_bin_digits_le:
  "n < 2 ^ w \<Longrightarrow> 0 < w \<Longrightarrow> length (bin_digits n) \<le> w"
proof (induction n arbitrary: w rule: bin_digits.induct)
  case (1 n)
  show ?case
  proof (cases "n < 2")
    case True
    with "1.prems" show ?thesis by (subst bin_digits.simps) simp
  next
    case False
    with "1.prems" obtain u where w: "w = Suc u" by (cases w) auto
    from False "1.prems" w have "0 < u" by (cases u) auto
    moreover from "1.prems" w have "n div 2 < 2 ^ u" by auto
    ultimately have "length (bin_digits (n div 2)) \<le> u"
      using "1.IH" [OF False] by blast
    with False w show ?thesis by (subst bin_digits.simps) simp
  qed
qed

lemma length_zero_pad: "length (zero_pad w s) = max w (length s)"
  by (simp add: zero_pad_def)

lemma zero_pad_snoc:
  "length xs < w \<Longrightarrow> zero_pad w (xs @ [c]) = zero_pad (w - 1) xs @ [c]"
  by (simp add: zero_pad_def)

lemma length_bin_digits_gt:
  "2 ^ w \<le> n \<Longrightarrow> w < length (bin_digits n)"
proof (induction n arbitrary: w rule: bin_digits.induct)
  case (1 n)
  show ?case
  proof (cases w)
    case 0
    then show ?thesis using length_bin_digits_pos [of n] by simp
  next
    case (Suc u)
    from Suc "1.prems" have p: "2 * 2 ^ u \<le> n" by simp
    have q: "(1::nat) \<le> 2 ^ u" by simp
    from p q have big: "\<not> n < 2" by linarith
    from Suc "1.prems" have half: "2 ^ u \<le> n div 2" by auto
    from "1.IH" [OF big half] have "u < length (bin_digits (n div 2))" .
    with big Suc show ?thesis by (subst bin_digits.simps) simp
  qed
qed

text \<open>
  The rendering has at least 8 characters; it is longer for a number above 255 and starts
  with the sign for a negative one.
\<close>

lemma length_format_08b: "8 \<le> length (format_08b v)"
  by (simp add: format_08b_def zero_pad_def) arith

lemma format_08b_above: "255 < v \<Longrightarrow> 8 < length (format_08b v)"
  using length_bin_digits_gt [of 8 "nat v"] by (simp add: format_08b_def length_zero_pad)

lemma format_08b_negative: "v < 0 \<Longrightarrow> hd (format_08b v) = CHR ''-''"
  by (simp add: format_08b_def)

lemma py_getitem_nonneg:
  "0 \<le> i \<Longrightarrow> i < int (length s) \<Longrightarrow> py_getitem s i = Inr (s ! nat i)"
  by (simp add: py_getitem_def)

lemma py_getitem_format_08b:
  "0 \<le> i \<Longrightarrow> i \<le> 7 \<Longrightarrow> py_getitem (format_08b v) i = Inr (format_08b v ! nat i)"
  using length_format_08b [of v] by (simp add: py_getitem_nonneg)

text \<open>
  For a number below \<open>2 ^ w\<close> the padded binary digits are the \<open>w\<close> low bits, most
  significant first. For a byte and relay \<open>r\<close> of 1 to 8, the character that \<open>update\<close>
  reads is bit \<open>8 - r\<close> of the byte.
\<close>

lemma zero_pad_bin_digits_nth:
  "n < 2 ^ w \<Longrightarrow> 0 < w \<Longrightarrow> k < w \<Longrightarrow>
   zero_pad w (bin_digits n) ! k = (if bit n (w - 1 - k) then CHR ''1'' else CHR ''0'')"
proof (induction n arbitrary: w k rule: bin_digits.induct)
  case (1 n)
  show ?case
  proof (cases "n < 2")
    case True
    then have n: "n = 0 \<or> n = 1" by auto
    have bd: "bin_digits n = [if n = 0 then CHR ''0'' else CHR ''1'']"
      using True by (subst bin_digits.simps) simp
    show ?thesis
    proof (cases "k = w - 1")
      case True
      with n "1.prems" show ?thesis
        by (auto simp add: bd zero_pad_def nth_append bit_0)
    next
      case False
      with "1.prems" have "k < w - 1" by simp
      then have "0 < w - 1 - k" by simp
      then obtain j where j: "w - 1 - k = Suc j" by (cases "w - 1 - k") auto
      from n have "\<not> bit n (Suc j)" by (auto simp add: bit_Suc)
      with \<open>k < w - 1\<close> j show ?thesis
        by (simp add: bd zero_pad_def nth_append)
    qed
  next
    case False
    with "1.prems" obtain u where w: "w = Suc u" by (cases w) auto
    from False "1.prems" w have u: "0 < u" by (cases u) auto
    from "1.prems" w have half: "n div 2 < 2 ^ u" by auto
    have len: "length (bin_digits (n div 2)) \<le> u"
      using length_bin_digits_le [OF half u] .
    have bd: "bin_digits n = bin_digits (n div 2) @ [if n mod 2 = 0 then CHR ''0'' else CHR ''1'']"
      using False by (subst bin_digits.simps) simp
    have pad: "zero_pad w (bin_digits n)
                 = zero_pad u (bin_digits (n div 2)) @ [if n mod 2 = 0 then CHR ''0'' else CHR ''1'']"
      using len w by (simp add: bd zero_pad_snoc)
    have lu: "length (zero_pad u (bin_digits (n div 2))) = u"
      using len by (simp add: length_zero_pad)
    show ?thesis
    proof (cases "k = u")
      case True
      with w lu pad show ?thesis
        by (simp add: nth_append bit_0 odd_iff_mod_2_eq_one)
    next
      case False
      with "1.prems" w have ku: "k < u" by simp
      from "1.IH" [OF \<open>\<not> n < 2\<close> half u ku]
      have "zero_pad u (bin_digits (n div 2)) ! k
              = (if bit (n div 2) (u - 1 - k) then CHR ''1'' else CHR ''0'')" .
      moreover from ku have "w - 1 - k = Suc (u - 1 - k)" using w by simp
      ultimately show ?thesis
        using ku lu pad w by (simp add: nth_append bit_Suc)
    qed
  qed
qed

lemma format_08b_decodes_bit:
  assumes "0 \<le> v" "v \<le> 255" "1 \<le> r" "r \<le> 8"
  shows "py_getitem (format_08b v) (r - 1)
           = Inr (if bit v (nat (8 - r)) then CHR ''1'' else CHR ''0'')"
proof -
  have lt: "nat v < 2 ^ 8" using assms by simp
  have k: "nat (r - 1) < 8" using assms by simp
  have len: "length (format_08b v) = 8"
    using assms length_bin_digits_le [OF lt] by (simp add: format_08b_def length_zero_pad)
  have "format_08b v ! nat (r - 1)
          = (if bit (nat v) (8 - 1 - nat (r - 1)) then CHR ''1'' else CHR ''0'')"
    using assms zero_pad_bin_digits_nth [OF lt _ k] by (simp add: format_08b_def)
  moreover have "8 - 1 - nat (r - 1) = nat (8 - r)" using assms by simp
  moreover have "bit (nat v) (nat (8 - r)) = bit v (nat (8 - r))"
    using assms by (simp add: bit_nat_iff)
  ultimately show ?thesis
    using assms len by (simp add: py_getitem_def)
qed

section \<open>What \<open>update\<close> computes\<close>

text \<open>
  With the tag absent, \<open>int(None)\<close> raises before any attribute is assigned. With the tag
  present, the entity is marked available, the character at the relay index is read, the
  icon follows that character, and \<open>_last_state\<close> ends as the integer itself: the
  assignment under \<open># Save value\<close> replaces the boolean assigned before it.
\<close>

lemma update_absent:
  "fst (get_values rd (tag self)) = None \<Longrightarrow>
   update rd self = (Inl TypeError, self, [retrieved_line self None])"
  by (auto simp add: update_def split: prod.splits)

lemma update_present:
  "fst (get_values rd (tag self)) = Some v \<Longrightarrow>
   update rd self =
     (case py_getitem (format_08b v) (relay_index self) of
        Inl e \<Rightarrow> (Inl e, self\<lparr>attr_available := True\<rparr>,
                   retrieved_line self (Some v) #
                     (if attr_available self then [] else [available_line self]))
      | Inr c \<Rightarrow> (Inr (),
                   self\<lparr>attr_available := True,
                        attr_icon := (if c = CHR ''1'' then ''mdi:electric-switch-closed''
                                      else ''mdi:electric-switch''),
                        last_state := PInt v\<rparr>,
                   retrieved_line self (Some v) #
                     (if attr_available self then [] else [available_line self])))"
  by (cases "attr_available self")
     (auto simp add: update_def update_tail_def split: prod.splits sum.splits)

lemma transition_events_simps [simp]:
  "transition_events [] = []"
  "transition_events (retrieved_line s v # es) = transition_events es"
  "transition_events (available_line s # es) = available_line s # transition_events es"
  "transition_events (unavailable_line s # es) = unavailable_line s # transition_events es"
  by (simp_all add: transition_events_def retrieved_line_def available_line_def
        unavailable_line_def)

lemma relay_example_fields:
  "tag (relay_example i) = ''RELAIS''"
  "relay_index (relay_example i) = i - 1"
  "last_state (relay_example i) = PNone"
  "attr_available (relay_example i)"
  by (simp_all add: relay_example_def RelayState_init_def imported_example_def Let_def)


lemma update_present_in_range:
  assumes "fst (get_values rd (tag self)) = Some v"
    and "0 \<le> relay_index self" and "relay_index self \<le> 7"
  shows "update rd self =
           (Inr (),
            self\<lparr>attr_available := True,
                 attr_icon := (if format_08b v ! nat (relay_index self) = CHR ''1''
                               then ''mdi:electric-switch-closed'' else ''mdi:electric-switch''),
                 last_state := PInt v\<rparr>,
            retrieved_line self (Some v) #
              (if attr_available self then [] else [available_line self]))"
  using update_present [OF assms(1)] py_getitem_format_08b [OF assms(2,3), of v] by simp

lemma update_present_stores_value:
  assumes "fst (get_values rd (tag self)) = Some v"
    and "0 \<le> relay_index self" and "relay_index self \<le> 7"
  shows "is_on (entity_after (update rd self)) = PInt v"
  by (simp add: update_present_in_range [OF assms] entity_after_def is_on_def)

lemma update_icon_decodes_bit:
  assumes "fst (get_values rd (tag self)) = Some v" and "0 \<le> v" and "v \<le> 255"
    and "1 \<le> r" and "r \<le> 8" and "relay_index self = r - 1"
  shows "attr_icon (entity_after (update rd self))
           = (if bit v (nat (8 - r)) then ''mdi:electric-switch-closed''
              else ''mdi:electric-switch'')"
  using update_present [OF assms(1)] format_08b_decodes_bit [OF assms(2-5)] assms(6)
  by (simp add: entity_after_def)

lemma update_never_revokes:
  "attr_available self \<Longrightarrow> attr_available (entity_after (update rd self))"
  by (cases "fst (get_values rd (tag self))")
     (simp_all add: update_absent update_present entity_after_def split: sum.splits)

lemma update_tail_absent_full_frame:
  "attr_available self \<Longrightarrow> has_read_full_frame rd \<Longrightarrow>
   update_tail rd self None = (Inr (), self\<lparr>attr_available := False\<rparr>, [unavailable_line self])"
  by (simp add: update_tail_def)

lemma setup_with_reader_adds:
  assumes "hass_data (DOMAIN imp) = Some per_entry" and "per_entry (entry_id entry) = Some r"
  shows "fst (async_setup_entry imp hass_data entry frames) = Inr ()
         \<and> last (snd (async_setup_entry imp hass_data entry frames))
             = AddEntities
                 [Serial (fst (SerialConnectivity_init imp (title entry) (Some (entry_id entry)) r))]
                 True"
  using assms
  by (simp add: async_setup_entry_def py_dict_getitem_def Let_def split: prod.splits)

section \<open>Results\<close>

text \<open>
  C1, at relay 2 and the byte 130 (\<open>10000010\<close>): the character read for relay 2 is \<open>0\<close>,
  so the relay is open. \<open>update\<close> returns, and \<open>is_on\<close> is then the integer 130, which is
  neither \<open>True\<close> nor \<open>False\<close> and counts as true where a truth value is taken.
\<close>

theorem relay_update_stores_raw_value:
  "py_getitem (format_08b 130) (relay_index (relay_example 2)) = Inr CHR ''0''
   \<and> outcome (update (reader_example (Some 130) True) (relay_example 2)) = Inr ()
   \<and> is_on (entity_after (update (reader_example (Some 130) True) (relay_example 2))) = PInt 130
   \<and> py_truthy (is_on (entity_after (update (reader_example (Some 130) True) (relay_example 2))))"
  by code_simp

text \<open>
  C2, for an available relay entity, the tag absent and a full frame read: \<open>update\<close>
  raises \<open>TypeError\<close> at \<open>int(value)\<close> and the entity is still marked available. The branch
  that would revoke availability (\<open>update_tail_absent_full_frame\<close>) is never reached
  (\<open>update_never_revokes\<close>).
\<close>

theorem update_absent_full_frame_raises:
  "attr_available (relay_example 1)
   \<and> has_read_full_frame (reader_example None True)
   \<and> fst (get_values (reader_example None True) (tag (relay_example 1))) = None
   \<and> outcome (update (reader_example None True) (relay_example 1)) = Inl TypeError
   \<and> attr_available (entity_after (update (reader_example None True) (relay_example 1)))"
  by code_simp

text \<open>
  C3 as the code has it: for a value below 0 or above 255 and a relay of 1 to 8, \<open>update\<close>
  checks no range and raises nothing. It returns, the entity is marked available, and the
  icon follows the character at the relay index of the full rendering of the value, which
  starts with the minus sign for a negative value and has more than 8 digits otherwise.
\<close>

theorem update_out_of_range_no_error:
  assumes "fst (get_values rd (tag self)) = Some v"
    and "v < 0 \<or> 255 < v"
    and "0 \<le> relay_index self" and "relay_index self \<le> 7"
  shows "outcome (update rd self) = Inr ()
         \<and> attr_available (entity_after (update rd self))
         \<and> attr_icon (entity_after (update rd self))
             = (if format_08b v ! nat (relay_index self) = CHR ''1''
                then ''mdi:electric-switch-closed'' else ''mdi:electric-switch'')
         \<and> (if v < 0 then hd (format_08b v) = CHR ''-'' else 8 < length (format_08b v))"
proof -
  have "py_getitem (format_08b v) (relay_index self) = Inr (format_08b v ! nat (relay_index self))"
    using assms(3,4) by (rule py_getitem_format_08b)
  with update_present [OF assms(1)]
  have "update rd self =
          (Inr (),
           self\<lparr>attr_available := True,
                attr_icon := (if format_08b v ! nat (relay_index self) = CHR ''1''
                              then ''mdi:electric-switch-closed'' else ''mdi:electric-switch''),
                last_state := PInt v\<rparr>,
           retrieved_line self (Some v) #
             (if attr_available self then [] else [available_line self]))"
    by simp
  moreover have "if v < 0 then hd (format_08b v) = CHR ''-'' else 8 < length (format_08b v)"
    using assms(2) format_08b_above [of v] format_08b_negative [of v] by auto
  ultimately show ?thesis
    by (simp add: outcome_def entity_after_def)
qed

theorem update_out_of_range_no_error_witness:
  "fst (get_values (reader_example (Some 256) True) (tag (relay_example 1))) = Some 256
   \<and> ((256::int) < 0 \<or> (255::int) < 256)
   \<and> 0 \<le> relay_index (relay_example 1) \<and> relay_index (relay_example 1) \<le> 7
   \<and> outcome (update (reader_example (Some 256) True) (relay_example 1)) = Inr ()
   \<and> attr_available (entity_after (update (reader_example (Some 256) True) (relay_example 1)))
   \<and> attr_icon (entity_after (update (reader_example (Some 256) True) (relay_example 1)))
       = ''mdi:electric-switch-closed''
   \<and> 8 < length (format_08b 256)"
proof -
  have h1: "fst (get_values (reader_example (Some 256) True) (tag (relay_example 1))) = Some 256"
    by (simp add: reader_example_def)
  have h2: "(256::int) < 0 \<or> (255::int) < 256" by simp
  have h3: "0 \<le> relay_index (relay_example 1)" "relay_index (relay_example 1) \<le> 7"
    by (simp_all add: relay_example_fields)
  have c: "format_08b 256 ! nat (relay_index (relay_example 1)) = CHR ''1''"
    by code_simp
  show ?thesis
    using update_out_of_range_no_error [OF h1 h2 h3] h1 h3 c by simp
qed

text \<open>
  C3 as stated fails at the value 256 and relay 1: \<open>update\<close> returns normally and the
  observed state is no longer what it was.
\<close>

theorem update_256_counterexample:
  "outcome (update (reader_example (Some 256) True) (relay_example 1)) = Inr ()
   \<and> is_on (entity_after (update (reader_example (Some 256) True) (relay_example 1)))
       \<noteq> is_on (relay_example 1)"
  by code_simp

text \<open>
  C4: a second \<open>update\<close> with the same answers of the reader leaves the entity as the first
  one left it (so \<open>is_on\<close> and the availability are the same after each call, and so is
  the outcome), and writes no availability line. In any call, an availability line is
  written exactly when the availability flag differs before and after the call.
\<close>

theorem update_idempotent:
  "entity_after (update rd (entity_after (update rd self))) = entity_after (update rd self)
   \<and> is_on (entity_after (update rd (entity_after (update rd self))))
       = is_on (entity_after (update rd self))
   \<and> attr_available (entity_after (update rd (entity_after (update rd self))))
       = attr_available (entity_after (update rd self))
   \<and> outcome (update rd (entity_after (update rd self))) = outcome (update rd self)
   \<and> transition_events (logged (update rd (entity_after (update rd self)))) = []
   \<and> (transition_events (logged (update rd self)) \<noteq> [])
       = (attr_available (entity_after (update rd self)) \<noteq> attr_available self)"
proof (cases "fst (get_values rd (tag self))")
  case None
  then show ?thesis
    by (simp add: update_absent entity_after_def logged_def outcome_def)
next
  case (Some v)
  show ?thesis
  proof (cases "py_getitem (format_08b v) (relay_index self)")
    case (Inl e)
    let ?s1 = "self\<lparr>attr_available := True\<rparr>"
    have 1: "update rd self = (Inl e, ?s1, retrieved_line self (Some v) #
                     (if attr_available self then [] else [available_line self]))"
      using update_present [OF Some] Inl by simp
    have "fst (get_values rd (tag ?s1)) = Some v" using Some by simp
    from update_present [OF this] Inl
    have 2: "update rd ?s1 = (Inl e, ?s1, [retrieved_line ?s1 (Some v)])" by simp
    show ?thesis by (simp add: 1 2 entity_after_def logged_def outcome_def)
  next
    case (Inr c)
    let ?s1 = "self\<lparr>attr_available := True,
                        attr_icon := (if c = CHR ''1'' then ''mdi:electric-switch-closed''
                                      else ''mdi:electric-switch''),
                        last_state := PInt v\<rparr>"
    have 1: "update rd self = (Inr (), ?s1, retrieved_line self (Some v) #
                     (if attr_available self then [] else [available_line self]))"
      using update_present [OF Some] Inr by simp
    have "fst (get_values rd (tag ?s1)) = Some v" using Some by simp
    from update_present [OF this] Inr
    have 2: "update rd ?s1 = (Inr (), ?s1, [retrieved_line ?s1 (Some v)])" by simp
    show ?thesis by (simp add: 1 2 entity_after_def logged_def outcome_def)
  qed
qed




text \<open>
  C6: with the tag absent and no full frame read yet, \<open>update\<close> leaves the entity as it
  was, whatever its state: the availability flag and the last observed state are
  unchanged, and no availability line is written.
\<close>

theorem update_absent_no_frame_unchanged:
  assumes "fst (get_values rd (tag self)) = None" and "\<not> has_read_full_frame rd"
  shows "entity_after (update rd self) = self
         \<and> attr_available (entity_after (update rd self)) = attr_available self
         \<and> last_state (entity_after (update rd self)) = last_state self
         \<and> is_on (entity_after (update rd self)) = is_on self
         \<and> transition_events (logged (update rd self)) = []"
  using assms(1) by (simp add: update_absent entity_after_def logged_def)

theorem update_absent_no_frame_unchanged_witness:
  "fst (get_values (reader_example None False) (tag (relay_example 3))) = None
   \<and> \<not> has_read_full_frame (reader_example None False)
   \<and> entity_after (update (reader_example None False) (relay_example 3)) = relay_example 3
   \<and> attr_available (entity_after (update (reader_example None False) (relay_example 3)))
   \<and> last_state (entity_after (update (reader_example None False) (relay_example 3))) = PNone"
proof -
  have h1: "fst (get_values (reader_example None False) (tag (relay_example 3))) = None"
    by (simp add: reader_example_def)
  have h2: "\<not> has_read_full_frame (reader_example None False)"
    by (simp add: reader_example_def)
  have s: "attr_available (relay_example 3)" "last_state (relay_example 3) = PNone"
    by (simp_all add: relay_example_fields)
  show ?thesis
    using update_absent_no_frame_unchanged [OF h1 h2] h1 h2 s by simp
qed

text \<open>
  C7: when the reader of the config entry is not in the host's registry (the domain or
  the entry is missing), \<open>async_setup_entry\<close> returns without raising and has called
  \<open>async_add_entities\<close> not once; no relay entity was constructed either.
\<close>

theorem setup_without_reader:
  assumes "(case hass_data (DOMAIN imp) of None \<Rightarrow> None
            | Some per_entry \<Rightarrow> per_entry (entry_id entry)) = None"
  shows "fst (async_setup_entry imp hass_data entry frames) = Inr ()
         \<and> filter is_add_entities (snd (async_setup_entry imp hass_data entry frames)) = []
         \<and> filter is_register_push_notif (snd (async_setup_entry imp hass_data entry frames)) = []"
  using assms
  by (auto simp add: async_setup_entry_def py_dict_getitem_def split: option.splits)

theorem setup_without_reader_witness:
  "(case [''linkytic'' \<mapsto> [''other'' \<mapsto> (3::nat)]] (DOMAIN imported_example) of
      None \<Rightarrow> None
    | Some per_entry \<Rightarrow> per_entry (entry_id config_entry_example)) = None
   \<and> fst (async_setup_entry imported_example [''linkytic'' \<mapsto> [''other'' \<mapsto> 3]]
            config_entry_example (\<lambda>i. True)) = Inr ()
   \<and> filter is_add_entities
        (snd (async_setup_entry imported_example [''linkytic'' \<mapsto> [''other'' \<mapsto> 3]]
                config_entry_example (\<lambda>i. True))) = []"
proof -
  have h: "(case [''linkytic'' \<mapsto> [''other'' \<mapsto> (3::nat)]] (DOMAIN imported_example) of
              None \<Rightarrow> None
            | Some per_entry \<Rightarrow> per_entry (entry_id config_entry_example)) = None"
    by (simp add: imported_example_def config_entry_example_def)
  show ?thesis
    using setup_without_reader
            [where hass_data = "[''linkytic'' \<mapsto> [''other'' \<mapsto> 3]]"
               and imp = imported_example and entry = config_entry_example
               and frames = "\<lambda>i. True", OF h] h
    by simp
qed

text \<open>
  C8: the constructor of a relay entity registers exactly one push-notification callback,
  for the tag \<open>RELAIS\<close>: the entity's \<open>update_notification\<close>. Whatever its argument, that
  callback asks the host for one state update with \<open>force_refresh=True\<close>.
\<close>

theorem relay_registers_forced_refresh:
  "filter is_register_push_notif (snd (RelayState_init imp t u r i))
     = [RegisterPushNotif ''RELAIS'' (update_notification (fst (RelayState_init imp t u r i)))]
   \<and> update_notification self b = [ScheduleUpdateHaState True]
   \<and> force_refresh (hd (update_notification self b))"
  by (simp add: RelayState_init_def update_notification_def Let_def)

text \<open>
  C9: right after construction, before any \<open>update\<close>, the property \<open>is_on\<close> of a relay
  entity is \<open>None\<close>: neither \<open>True\<close> nor \<open>False\<close>.
\<close>

theorem is_on_after_init:
  "is_on (fst (RelayState_init imp t uniq_id serial_reader relay_idx)) = PNone"
  by (simp add: RelayState_init_def is_on_def Let_def)

text \<open>
  C10: the native value of the \<open>BASE\<close> sensor is the constant 42, its unit is \<open>Wh\<close> and its
  state class is total-increasing. Neither the constructor nor the property takes the
  reader or any other input.
\<close>

theorem base_native_value_constant:
  "native_value (fst BASE_init) = 42
   \<and> base_attr_native_unit_of_measurement (fst BASE_init) = ''Wh''
   \<and> base_attr_state_class (fst BASE_init) = TOTAL_INCREASING"
  by (simp add: native_value_def BASE_init_def)

end
